theory Spec2Isabelle
  imports Main
begin

section \<open>Data model of \<open>fancy_getopt.py\<close>\<close>

text \<open>
  An entry of the option table is the 3-tuple \<open>(long_option, short_option, help_string)\<close>.
  The short option and the help string may be \<open>None\<close>. Entries are modelled as triples,
  so the \<open>ValueError\<close> branch of the tuple unpacking in \<open>_grok_option_table\<close> and the
  \<open>type(long) is not StringType\<close> test are excluded by the types.
\<close>

type_synonym opt_entry = "string \<times> string option \<times> string option"

text \<open>
  A value bound onto the target object: the raw string of a value-taking option, or the
  integers \<open>1\<close> and \<open>0\<close> that the source uses for true and false.
\<close>

datatype pyval = Str string | Num int

text \<open>The exceptions that the modelled code can raise, as values.\<close>

datatype error =
    DistutilsGetoptError string
  | DistutilsArgError string
  | DistutilsInternalError string
  | KeyError string
  | NameError string
  | TypeError string
  | AttributeError string
  | IndexError string
  | RuntimeError string

text \<open>The instance attributes that \<open>FancyGetopt.__init__\<close> creates.\<close>

record FancyGetopt =
  option_table :: "opt_entry list option"
  option_index :: "string \<rightharpoonup> opt_entry"
  negative_alias :: "string \<rightharpoonup> string"
  short_opts :: "string list"
  long_opts :: "string list"
  short2long :: "char \<rightharpoonup> string"
  attr_name :: "string \<rightharpoonup> string"
  takes_arg :: "string \<rightharpoonup> int"
  option_order :: "(string \<times> pyval) list"

text \<open>
  A method returns its outcome (the exception raised, or the returned value) together
  with the instance as the call leaves it: an exception does not undo the assignments
  made before it.
\<close>

type_synonym 'a outcome = "(error + 'a) \<times> FancyGetopt"

text \<open>Python truthiness of a value that is \<open>None\<close> or a string, and of a list or \<open>None\<close>.\<close>

definition py_true_str :: "string option \<Rightarrow> bool" where
  "py_true_str s = (case s of None \<Rightarrow> False | Some x \<Rightarrow> x \<noteq> [])"

definition py_true_list :: "'a list option \<Rightarrow> bool" where
  "py_true_list t = (case t of None \<Rightarrow> False | Some xs \<Rightarrow> xs \<noteq> [])"

section \<open>Construction, index and aliases\<close>

text \<open>
  \<open>build_index\<close>: every entry is stored under its long name as written in the table (a
  trailing \<open>=\<close> included); a later entry with the same long name silently replaces the
  earlier one. Iterating over a table that is \<open>None\<close> raises \<open>TypeError\<close>.
\<close>

definition build_index :: "FancyGetopt \<Rightarrow> unit outcome" where
  "build_index self =
     (case option_table self of
        None \<Rightarrow> (Inl (TypeError ''iteration over non-sequence''), self)
      | Some table \<Rightarrow>
          (Inr (),
           self\<lparr>option_index :=
                  fold (\<lambda>option idx. idx(fst option \<mapsto> option)) table (option_index self)\<rparr>))"

text \<open>
  \<open>__init__\<close>: an exception of \<open>build_index\<close> would leave the constructor; the assignments
  after the call do not depend on it, so the instance is written out at once.
\<close>

definition FancyGetopt_init :: "opt_entry list option \<Rightarrow> unit outcome" where
  "FancyGetopt_init table =
     (let self = \<lparr>option_table = table, option_index = Map.empty,
                  negative_alias = Map.empty, short_opts = [], long_opts = [],
                  short2long = Map.empty, attr_name = Map.empty, takes_arg = Map.empty,
                  option_order = []\<rparr>
      in if py_true_list table then build_index self else (Inr (), self))"

definition add_option ::
  "FancyGetopt \<Rightarrow> string \<Rightarrow> string option \<Rightarrow> string option \<Rightarrow> unit outcome" where
  "add_option self long_option short_option help_string =
     (if option_index self long_option \<noteq> None then
        (Inl (DistutilsGetoptError
               (''option conflict: already an option '' @ [CHR 0x27] @ long_option @ [CHR 0x27])),
         self)
      else
        (case option_table self of
           None \<Rightarrow> (Inl (AttributeError ''append''), self)
         | Some table \<Rightarrow>
             (let option = (long_option, short_option, help_string) in
              (Inr (),
               self\<lparr>option_table := Some (table @ [option]),
                    option_index := (option_index self)(long_option \<mapsto> option)\<rparr>))))"

text \<open>
  \<open>set_negative_aliases\<close> walks \<open>negative_alias.items()\<close>; the dictionary is given here by
  its items in iteration order, and stored as the map they denote.
\<close>

fun check_aliases :: "FancyGetopt \<Rightarrow> (string \<times> string) list \<Rightarrow> error option" where
  "check_aliases self [] = None"
| "check_aliases self ((negopt, opt) # rest) =
     (if option_index self negopt = None then
        Some (DistutilsGetoptError
               (''invalid negative alias '' @ [CHR 0x27] @ negopt @ [CHR 0x27] @
                '': option '' @ [CHR 0x27] @ negopt @ [CHR 0x27] @ '' not defined''))
      else if option_index self opt = None then
        Some (DistutilsGetoptError
               (''invalid negative alias '' @ [CHR 0x27] @ negopt @ [CHR 0x27] @
                '': aliased option '' @ [CHR 0x27] @ opt @ [CHR 0x27] @ '' not defined''))
      else check_aliases self rest)"

definition set_negative_aliases :: "FancyGetopt \<Rightarrow> (string \<times> string) list \<Rightarrow> unit outcome" where
  "set_negative_aliases self items =
     (case check_aliases self items of
        Some e \<Rightarrow> (Inl e, self)
      | None \<Rightarrow> (Inr (), self\<lparr>negative_alias := map_of items\<rparr>))"

section \<open>Compiling the option table\<close>

text \<open>
  \<open>longopt_re\<close> is \<open>^[a-zA-Z](?:[a-zA-Z0-9-]*)$\<close>, applied with \<open>match\<close>. In Python's \<open>re\<close>,
  \<open>$\<close> also matches just before a newline that ends the string.
\<close>

definition is_letter :: "char \<Rightarrow> bool" where
  "is_letter c = (c \<in> set ''abcdefghijklmnopqrstuvwxyzABCDEFGHIJKLMNOPQRSTUVWXYZ'')"

definition is_name_char :: "char \<Rightarrow> bool" where
  "is_name_char c = (is_letter c \<or> c \<in> set ''0123456789-'')"

definition longopt_match :: "string \<Rightarrow> bool" where
  "longopt_match s =
     (case s of
        [] \<Rightarrow> False
      | c # cs \<Rightarrow>
          is_letter c \<and>
          (list_all is_name_char cs \<or>
           (cs \<noteq> [] \<and> last cs = CHR 0x0A \<and> list_all is_name_char (butlast cs))))"

text \<open>\<open>string.translate (long, longopt_xlate)\<close>: every hyphen becomes an underscore.\<close>

definition longopt_xlate :: "string \<Rightarrow> string" where
  "longopt_xlate s = map (\<lambda>c. if c = CHR ''-'' then CHR ''_'' else c) s"

text \<open>
  The tail of the loop body of \<open>_grok_option_table\<close>, from the pattern check on: \<open>long\<close> has
  lost its trailing \<open>=\<close> and \<open>short\<close> has gained its \<open>:\<close> by now.
\<close>

definition grok_finish :: "string \<Rightarrow> string option \<Rightarrow> FancyGetopt \<Rightarrow> unit outcome" where
  "grok_finish long short self =
     (if \<not> longopt_match long then
        (Inl (DistutilsGetoptError
               (''invalid long option name '' @ [CHR 0x27] @ long @ [CHR 0x27] @
                '' (must be letters, numbers, hyphens only'')),
         self)
      else
        (let self1 = self\<lparr>attr_name := (attr_name self)(long \<mapsto> longopt_xlate long)\<rparr> in
         if py_true_str short then
           (case short of
              Some (c # cs) \<Rightarrow>
                (Inr (),
                 self1\<lparr>short_opts := short_opts self1 @ [c # cs],
                       short2long := (short2long self1)(c \<mapsto> long)\<rparr>)
            | _ \<Rightarrow> (Inr (), self1))
         else (Inr (), self1)))"

text \<open>One iteration of the loop of \<open>_grok_option_table\<close>.\<close>

definition grok_option :: "opt_entry \<Rightarrow> FancyGetopt \<Rightarrow> unit outcome" where
  "grok_option option self =
     (case option of (long, short, help) \<Rightarrow>
        if length long < 2 then
          (Inl (DistutilsGetoptError
                 (''invalid long option '' @ [CHR 0x27] @ long @ [CHR 0x27] @
                  '': must be a string of length >= 2'')),
           self)
        else if \<not> (case short of None \<Rightarrow> True | Some s \<Rightarrow> length s = 1) then
          (Inl (DistutilsGetoptError
                 (''invalid short option '' @ [CHR 0x27] @ the short @ [CHR 0x27] @
                  '': must a single character or None'')),
           self)
        else
          (let self1 = self\<lparr>long_opts := long_opts self @ [long]\<rparr> in
           if last long = CHR ''='' then
             (let short1 = (if py_true_str short then map_option (\<lambda>s. s @ '':'') short
                            else short);
                  long1 = butlast long;
                  self2 = self1\<lparr>takes_arg := (takes_arg self1)(long1 \<mapsto> 1)\<rparr>
              in grok_finish long1 short1 self2)
           else
             (case negative_alias self1 long of
                Some alias_to \<Rightarrow>
                  (case takes_arg self1 alias_to of
                     None \<Rightarrow> (Inl (KeyError alias_to), self1)
                   | Some t \<Rightarrow>
                       if t \<noteq> 0 then
                         (Inl (DistutilsGetoptError
                                (''invalid negative alias '' @ [CHR 0x27] @ long @ [CHR 0x27] @
                                 '': aliased option '' @ [CHR 0x27] @ alias_to @ [CHR 0x27] @
                                 '' takes a value'')),
                          self1)
                       else
                         (let self2 = self1\<lparr>long_opts :=
                                              (long_opts self1)[length (long_opts self1) - 1 := long]\<rparr>;
                              self3 = self2\<lparr>takes_arg := (takes_arg self2)(long \<mapsto> 0)\<rparr>
                          in grok_finish long short self3))
              | None \<Rightarrow>
                  grok_finish long short (self1\<lparr>takes_arg := (takes_arg self1)(long \<mapsto> 0)\<rparr>))))"

fun grok_options :: "opt_entry list \<Rightarrow> FancyGetopt \<Rightarrow> unit outcome" where
  "grok_options [] self = (Inr (), self)"
| "grok_options (option # rest) self =
     (case grok_option option self of
        (Inl e, self1) \<Rightarrow> (Inl e, self1)
      | (Inr u, self1) \<Rightarrow> grok_options rest self1)"

text \<open>\<open>_grok_option_table\<close> (an Isabelle name cannot start with an underscore).\<close>

definition grok_option_table :: "FancyGetopt \<Rightarrow> unit outcome" where
  "grok_option_table self =
     (case option_table self of
        None \<Rightarrow> (Inl (TypeError ''iteration over non-sequence''), self)
      | Some table \<Rightarrow> grok_options table self)"

section \<open>Parsing and binding\<close>

text \<open>
  The target object is an open bag of attributes.

  An argument list is a Python list object, passed and returned by reference. The list
  objects that hold arguments live in a heap, addressed by position; a slice such as
  \<open>sys.argv[1:]\<close> allocates a new object at the end.

  The tokenizer \<open>getopt.getopt\<close> of the standard library is not part of this module: it is
  a parameter. It receives the heap, the reference of the argument list, the short-option
  string and the long-option list, and returns either the message of \<open>getopt.error\<close> or
  the \<open>(option, value)\<close> pairs with the reference of the list of remaining arguments,
  together with the heap as it leaves it.
\<close>

type_synonym attrs = "string \<rightharpoonup> pyval"

type_synonym ref = nat

type_synonym heap = "string list list"

definition alloc :: "heap \<Rightarrow> string list \<Rightarrow> ref \<times> heap" where
  "alloc h xs = (length h, h @ [xs])"

type_synonym tokenizer =
  "heap \<Rightarrow> ref \<Rightarrow> string \<Rightarrow> string list \<Rightarrow>
   (string + ((string \<times> string) list \<times> ref)) \<times> heap"

text \<open>\<open>string.join (words)\<close> with its default separator, a single space.\<close>

fun string_join :: "string list \<Rightarrow> string" where
  "string_join [] = []"
| "string_join [w] = w"
| "string_join (w # ws) = w @ '' '' @ string_join ws"

text \<open>
  The last three statements of the loop body of \<open>getopt\<close>: look the attribute name up, set
  the attribute, append to \<open>option_order\<close>.
\<close>

definition store_option ::
  "string \<Rightarrow> pyval \<Rightarrow> attrs \<Rightarrow> FancyGetopt \<Rightarrow> (error + unit) \<times> attrs \<times> FancyGetopt" where
  "store_option opt val object self =
     (case attr_name self opt of
        None \<Rightarrow> (Inl (KeyError opt), object, self)
      | Some attr \<Rightarrow>
          (Inr (), object(attr \<mapsto> val),
           self\<lparr>option_order := option_order self @ [(opt, val)]\<rparr>))"

text \<open>
  One iteration of the loop over the tokenizer's pairs. The message of the second
  \<open>DistutilsInternalError\<close> is formatted from the name \<open>value\<close>, which is bound nowhere
  (the loop variable is \<open>val\<close>): evaluating the message raises \<open>NameError\<close> before the
  \<open>raise\<close> statement is executed.
\<close>

definition bind_option ::
  "string \<times> string \<Rightarrow> attrs \<Rightarrow> FancyGetopt \<Rightarrow> (error + unit) \<times> attrs \<times> FancyGetopt" where
  "bind_option pair object self =
     (case pair of (opt, val) \<Rightarrow>
        (case (if length opt = 2 \<and> hd opt = CHR ''-'' then
                 (case short2long self (opt ! 1) of
                    None \<Rightarrow> Inl (KeyError [opt ! 1])
                  | Some long \<Rightarrow> Inr long)
               else if length opt > 2 \<and> take 2 opt = ''--'' then Inr (drop 2 opt)
               else Inl (DistutilsInternalError
                          (''this can't happen: bad option string '' @
                           [CHR 0x27] @ opt @ [CHR 0x27]))) of
           Inl e \<Rightarrow> (Inl e, object, self)
         | Inr opt1 \<Rightarrow>
             (case takes_arg self opt1 of
                None \<Rightarrow> (Inl (KeyError opt1), object, self)
              | Some t \<Rightarrow>
                  if t = 0 then
                    (if val \<noteq> [] then (Inl (NameError ''value''), object, self)
                     else if py_true_str (negative_alias self opt1) then
                       store_option (the (negative_alias self opt1)) (Num 0) object self
                     else store_option opt1 (Num 1) object self)
                  else store_option opt1 (Str val) object self)))"

fun bind_options ::
  "(string \<times> string) list \<Rightarrow> attrs \<Rightarrow> FancyGetopt \<Rightarrow> (error + unit) \<times> attrs \<times> FancyGetopt" where
  "bind_options [] object self = (Inr (), object, self)"
| "bind_options (pair # rest) object self =
     (case bind_option pair object self of
        (Inl e, object1, self1) \<Rightarrow> (Inl e, object1, self1)
      | (Inr u, object1, self1) \<Rightarrow> bind_options rest object1 self1)"

text \<open>
  \<open>getopt\<close> returns \<open>(args, object)\<close> when it created the object and \<open>args\<close> alone when the
  caller supplied it; \<open>args\<close> is a reference. The model returns, besides that value, the
  object, the instance and the heap as the call leaves them. \<open>sys_argv\<close> stands for the
  contents of \<open>sys.argv\<close>. The function rebinds its local name \<open>args\<close> twice and never
  writes to a list.
\<close>

datatype getopt_result = Args ref | ArgsObject ref attrs

definition getopt ::
  "tokenizer \<Rightarrow> string list \<Rightarrow> FancyGetopt \<Rightarrow> heap \<Rightarrow> ref option \<Rightarrow> attrs option \<Rightarrow>
   (error + getopt_result) \<times> attrs \<times> FancyGetopt \<times> heap" where
  "getopt getopt_getopt sys_argv self h args object =
     (let (args1, h1) = (case args of None \<Rightarrow> alloc h (drop 1 sys_argv) | Some a \<Rightarrow> (a, h));
          object1 = (case object of None \<Rightarrow> Map.empty | Some ob \<Rightarrow> ob);
          created_object = (object = None)
      in case grok_option_table self of
           (Inl e, self1) \<Rightarrow> (Inl e, object1, self1, h1)
         | (Inr u, self1) \<Rightarrow>
             (case getopt_getopt h1 args1 (string_join (short_opts self1)) (long_opts self1) of
                (Inl msg, h2) \<Rightarrow> (Inl (DistutilsArgError msg), object1, self1, h2)
              | (Inr (opts, args2), h2) \<Rightarrow>
                  (case bind_options opts object1 self1 of
                     (Inl e, object2, self2) \<Rightarrow> (Inl e, object2, self2, h2)
                   | (Inr u, object2, self2) \<Rightarrow>
                       (Inr (if created_object then ArgsObject args2 object2 else Args args2),
                        object2, self2, h2))))"

text \<open>
  \<open>get_option_order\<close> is declared inside the class as \<open>def get_option_order ():\<close>, with no
  parameter at all. Called on an instance, the instance is passed as the one positional
  argument of a function that accepts none, and Python raises \<open>TypeError\<close> before the body
  runs.
\<close>

definition get_option_order :: "FancyGetopt \<Rightarrow> (string \<times> pyval) list outcome" where
  "get_option_order self =
     (Inl (TypeError ''get_option_order() takes no arguments (1 given)''), self)"

text \<open>The module-level function \<open>fancy_getopt\<close>.\<close>

definition fancy_getopt ::
  "tokenizer \<Rightarrow> string list \<Rightarrow> opt_entry list option \<Rightarrow> (string \<times> string) list \<Rightarrow>
   attrs option \<Rightarrow> heap \<Rightarrow> ref option \<Rightarrow>
   (error + getopt_result) \<times> attrs \<times> FancyGetopt \<times> heap" where
  "fancy_getopt getopt_getopt sys_argv options negative_opt object h args =
     (let object1 = (case object of None \<Rightarrow> Map.empty | Some ob \<Rightarrow> ob) in
      case FancyGetopt_init options of
        (Inl e, parser) \<Rightarrow> (Inl e, object1, parser, h)
      | (Inr u, parser) \<Rightarrow>
          (case set_negative_aliases parser negative_opt of
             (Inl e, parser1) \<Rightarrow> (Inl e, object1, parser1, h)
           | (Inr u, parser1) \<Rightarrow> getopt getopt_getopt sys_argv parser1 h args object))"

section \<open>Wrapping text\<close>

text \<open>
  \<open>string.expandtabs\<close> with the default tab size 8: a tab becomes the spaces that reach
  the next multiple of 8 in the current line; a newline or carriage return starts a new
  line.
\<close>

fun expandtabs_from :: "nat \<Rightarrow> string \<Rightarrow> string" where
  "expandtabs_from col [] = []"
| "expandtabs_from col (c # cs) =
     (if c = CHR 0x09 then
        replicate (8 - col mod 8) CHR '' '' @ expandtabs_from (col + (8 - col mod 8)) cs
      else if c = CHR 0x0A \<or> c = CHR 0x0D then c # expandtabs_from 0 cs
      else c # expandtabs_from (Suc col) cs)"

definition expandtabs :: "string \<Rightarrow> string" where
  "expandtabs s = expandtabs_from 0 s"

text \<open>\<open>WS_TRANS\<close> maps each character of \<open>string.whitespace\<close> to a space.\<close>

definition WS_TRANS :: "char \<Rightarrow> char" where
  "WS_TRANS c = (if c \<in> {CHR '' '', CHR 0x09, CHR 0x0A, CHR 0x0B, CHR 0x0C, CHR 0x0D}
                 then CHR '' '' else c)"

text \<open>
  \<open>re.split (r'( +|-+)', text)\<close>: the text before the leftmost run of spaces or of hyphens,
  the run itself (the pattern is a group, so it is kept), then the split of what follows.
  The pieces between two runs may be empty.
\<close>

definition is_sep :: "char \<Rightarrow> bool" where
  "is_sep c = (c = CHR '' '' \<or> c = CHR ''-'')"

function re_split :: "string \<Rightarrow> string list" where
  "re_split s =
     (case dropWhile (\<lambda>c. \<not> is_sep c) s of
        [] \<Rightarrow> [s]
      | c # rest \<Rightarrow>
          takeWhile (\<lambda>c. \<not> is_sep c) s # (c # takeWhile (\<lambda>x. x = c) rest) #
          re_split (dropWhile (\<lambda>x. x = c) rest))"
  by pat_completeness auto
termination
proof (relation "measure length")
  show "wf (measure length)" by simp
next
  fix s :: string and c rest
  assume a: "dropWhile (\<lambda>c. \<not> is_sep c) s = c # rest"
  have "length (dropWhile (\<lambda>x. x = c) rest) \<le> length rest"
    by (rule length_dropWhile_le)
  moreover have "length (c # rest) \<le> length s"
    using length_dropWhile_le [of "\<lambda>c. \<not> is_sep c" s] a by simp
  ultimately show "(dropWhile (\<lambda>x. x = c) rest, s) \<in> measure length"
    by simp
qed

text \<open>Python slices \<open>s[0:width]\<close> and \<open>s[width:]\<close>; a negative bound counts from the end.\<close>

definition slice_to :: "string \<Rightarrow> int \<Rightarrow> string" where
  "slice_to s width =
     (if 0 \<le> width then take (nat width) s else take (length s - nat (- width)) s)"

definition slice_from :: "string \<Rightarrow> int \<Rightarrow> string" where
  "slice_from s width =
     (if 0 \<le> width then drop (nat width) s else drop (length s - nat (- width)) s)"

text \<open>
  The inner \<open>while chunks:\<close> loop: it returns the current line, its length and the chunks
  left. Indexing an empty chunk with \<open>[0]\<close> raises \<open>IndexError\<close>.
\<close>

fun fill_line ::
  "int \<Rightarrow> string list \<Rightarrow> string list \<Rightarrow> int \<Rightarrow> error + (string list \<times> int \<times> string list)" where
  "fill_line width [] cur_line cur_len = Inr (cur_line, cur_len, [])"
| "fill_line width (chunk # chunks) cur_line cur_len =
     (let l = int (length chunk) in
      if cur_len + l \<le> width then fill_line width chunks (cur_line @ [chunk]) (cur_len + l)
      else if cur_line \<noteq> [] then
        (case last cur_line of
           [] \<Rightarrow> Inl (IndexError ''string index out of range'')
         | x # xs \<Rightarrow>
             if x = CHR '' '' then Inr (butlast cur_line, cur_len, chunk # chunks)
             else Inr (cur_line, cur_len, chunk # chunks))
      else Inr (cur_line, cur_len, chunk # chunks))"

text \<open>
  The outer \<open>while chunks:\<close> loop. Nothing bounds the number of its iterations when the
  width is not positive, so a run that never returns is the value \<open>None\<close>.
\<close>

partial_function (option) wrap_lines ::
  "int \<Rightarrow> string list \<Rightarrow> string list \<Rightarrow> (error + string list) option" where
  "wrap_lines width chunks lines =
     (if chunks = [] then Some (Inr lines)
      else
        (case fill_line width chunks [] 0 of
           Inl e \<Rightarrow> Some (Inl e)
         | Inr (cur_line, cur_len, chunks1) \<Rightarrow>
             (case chunks1 of
                [] \<Rightarrow> wrap_lines width [] (lines @ [concat cur_line])
              | chunk # rest \<Rightarrow>
                  (let cur_line1 = (if cur_len = 0 then cur_line @ [slice_to chunk width]
                                    else cur_line);
                       chunk1 = (if cur_len = 0 then slice_from chunk width else chunk)
                   in case chunk1 of
                        [] \<Rightarrow> Some (Inl (IndexError ''string index out of range''))
                      | x # xs \<Rightarrow>
                          wrap_lines width (if x = CHR '' '' then rest else chunk1 # rest)
                            (lines @ [concat cur_line1])))))"

declare wrap_lines.simps [code]

definition wrap_text :: "string option \<Rightarrow> int \<Rightarrow> (error + string list) option" where
  "wrap_text text width =
     (case text of
        None \<Rightarrow> Some (Inr [])
      | Some t \<Rightarrow>
          if int (length t) \<le> width then Some (Inr [t])
          else wrap_lines width
                 (filter (\<lambda>chunk. chunk \<noteq> []) (re_split (map WS_TRANS (expandtabs t)))) [])"

section \<open>Generating help\<close>

text \<open>
  The first pass of \<open>generate_help\<close>: the maximum width of the option names. \<open>long[-1]\<close>
  raises \<open>IndexError\<close> on an empty long name (the table is not validated here).
\<close>

fun max_opt_pass :: "opt_entry list \<Rightarrow> int \<Rightarrow> error + int" where
  "max_opt_pass [] max_opt = Inr max_opt"
| "max_opt_pass ((long, short, help) # rest) max_opt =
     (if long = [] then Inl (IndexError ''string index out of range'')
      else
        (let l = int (length long);
             l1 = (if last long = CHR ''='' then l - 1 else l);
             l2 = (if short \<noteq> None then l1 + 5 else l1)
         in max_opt_pass rest (if l2 > max_opt then l2 else max_opt)))"

text \<open>
  \<open>"%-*s" % (width, s)\<close>: \<open>s\<close> padded with spaces on the right up to \<open>width\<close> characters,
  never truncated.
\<close>

definition ljust :: "int \<Rightarrow> string \<Rightarrow> string" where
  "ljust width s = s @ replicate (nat \<bar>width\<bar> - length s) CHR '' ''"

text \<open>
  The second pass, one option per iteration. In the branch for an option with a short
  name and no help text the format \<open>"  --%-*s"\<close> is applied to \<open>opt_names\<close> alone: the
  \<open>*\<close> takes the string \<open>opt_names\<close> for its width and the \<open>%\<close> operator raises \<open>TypeError\<close>.
  \<open>None\<close> is a run in which \<open>wrap_text\<close> does not return.
\<close>

fun help_pass :: "int \<Rightarrow> opt_entry list \<Rightarrow> string list \<Rightarrow> (error + string list) option" where
  "help_pass max_opt [] lines = Some (Inr lines)"
| "help_pass max_opt ((long, short, help) # rest) lines =
     (let opt_width = max_opt + 2 + 2 + 2;
          text_width = 78 - opt_width;
          big_indent = replicate (nat opt_width) CHR '' ''
      in case wrap_text help text_width of
           None \<Rightarrow> None
         | Some (Inl e) \<Rightarrow> Some (Inl e)
         | Some (Inr text) \<Rightarrow>
             if long = [] then Some (Inl (IndexError ''string index out of range''))
             else
               (let long1 = (if last long = CHR ''='' then butlast long else long) in
                case short of
                  None \<Rightarrow>
                    help_pass max_opt rest
                      ((if text \<noteq> [] then
                          lines @ [''  --'' @ ljust max_opt long1 @ ''  '' @ hd text]
                        else lines @ [''  --'' @ ljust max_opt long1 @ ''  ''])
                       @ map (\<lambda>l. big_indent @ l) (drop 1 text))
                | Some sh \<Rightarrow>
                    (let opt_names = long1 @ '' (-'' @ sh @ '')'' in
                     if text \<noteq> [] then
                       help_pass max_opt rest
                         (lines @ [''  --'' @ ljust max_opt opt_names @ ''  '' @ hd text])
                     else Some (Inl (TypeError ''* wants int'')))))"

definition generate_help ::
  "opt_entry list \<Rightarrow> string option \<Rightarrow> (error + string list) option" where
  "generate_help options header =
     (case max_opt_pass options 0 of
        Inl e \<Rightarrow> Some (Inl e)
      | Inr max_opt \<Rightarrow>
          help_pass max_opt options
            (if py_true_str header then [the header] else [''Option summary:'']))"

section \<open>Sample instances and auxiliary notions\<close>

text \<open>
  Two stand-ins for the external tokenizer, for evaluating the module on concrete inputs.
  The first gives a fixed answer, with the remaining arguments in a newly allocated list.
  The second answers as \<open>getopt.getopt\<close> does when the first argument is not an option:
  its loop is not entered and its \<open>return opts, args\<close> hands back no pair and the very
  list object it was given.
\<close>

definition fixed_tokenizer :: "(string \<times> string) list \<Rightarrow> string list \<Rightarrow> tokenizer" where
  "fixed_tokenizer opts rest h args shortopts longopts =
     (case alloc h rest of (r, h1) \<Rightarrow> (Inr (opts, r), h1))"

definition returns_given_list :: tokenizer where
  "returns_given_list h args shortopts longopts = (Inr ([], args), h)"

text \<open>Parsers built through the constructor and \<open>set_negative_aliases\<close>.\<close>

definition verbose_parser :: FancyGetopt where
  "verbose_parser = snd (FancyGetopt_init (Some [(''verbose'', Some ''v'', None)]))"


text \<open>
  What a successful run of \<open>_grok_option_table\<close> adds to an instance: entries appended to
  the two lists, and bindings laid over the three dictionaries.
\<close>

definition extend_compiled ::
  "string list \<Rightarrow> string list \<Rightarrow> (string \<rightharpoonup> int) \<Rightarrow> (string \<rightharpoonup> string) \<Rightarrow>
   (char \<rightharpoonup> string) \<Rightarrow> FancyGetopt \<Rightarrow> FancyGetopt" where
  "extend_compiled ls ss dT dA dS self =
     self\<lparr>long_opts := long_opts self @ ls, short_opts := short_opts self @ ss,
          takes_arg := takes_arg self ++ dT, attr_name := attr_name self ++ dA,
          short2long := short2long self ++ dS\<rparr>"


section \<open>Evaluation rules\<close>

lemmas engine_defs = FancyGetopt_init_def build_index_def py_true_list_def py_true_str_def
  set_negative_aliases_def grok_option_table_def grok_option_def grok_finish_def
  longopt_match_def is_letter_def is_name_char_def longopt_xlate_def Let_def

lemmas parse_defs = fancy_getopt_def getopt_def bind_option_def store_option_def alloc_def
  fixed_tokenizer_def returns_given_list_def

lemmas wrap_defs = wrap_text_def expandtabs_def WS_TRANS_def is_sep_def wrap_lines.simps
  slice_to_def slice_from_def

section \<open>Wrapping text: the stated examples and the fast path\<close>


text \<open>
  Claim C6. For every width greater than 0, \<open>wrap_text\<close> of \<open>None\<close> returns the empty list,
  and a text whose length is at most the width comes back as the one-element list holding
  the text itself: tabs are not expanded and whitespace is not translated.
\<close>

theorem wrap_text_fast_path:
  "0 < width \<Longrightarrow>
   wrap_text None width = Some (Inr []) \<and>
   (int (length text) \<le> width \<longrightarrow> wrap_text (Some text) width = Some (Inr [text]))"
  by (simp add: wrap_text_def)

theorem wrap_text_fast_path_witness:
  "(0::int) < 10 \<and> int (length [CHR ''a'', CHR 0x09, CHR ''b'', CHR 0x0A, CHR '' '', CHR ''c'']) \<le> 10 \<and>
   wrap_text None 10 = Some (Inr []) \<and>
   wrap_text (Some [CHR ''a'', CHR 0x09, CHR ''b'', CHR 0x0A, CHR '' '', CHR ''c'']) 10 =
     Some (Inr [[CHR ''a'', CHR 0x09, CHR ''b'', CHR 0x0A, CHR '' '', CHR ''c'']])"
proof -
  have pos: "(0::int) < 10" by simp
  have short: "int (length [CHR ''a'', CHR 0x09, CHR ''b'', CHR 0x0A, CHR '' '', CHR ''c'']) \<le> 10"
    by simp
  from wrap_text_fast_path [OF pos, of "[CHR ''a'', CHR 0x09, CHR ''b'', CHR 0x0A, CHR '' '', CHR ''c'']"]
    pos short
  show ?thesis by blast
qed

section \<open>Generating help for an option with a short name\<close>

lemma help_short_option_with_text:
  "generate_help
     [(''verbose'', Some ''v'',
       Some ''run verbosely and print a lot of things to the terminal while running, really a lot'')]
     None =
   Some (Inr [''Option summary:'',
              ''  --verbose (-v)  run verbosely and print a lot of things to the terminal''])"
  by (simp add: generate_help_def wrap_defs py_true_str_def ljust_def)

text \<open>
  Claim C10. For an option with a short name and no help text, the claim expects the
  padded label alone as the option's one line. The source formats that line with
  \<open>"  --%-*s" % opt_names\<close>, leaving out the width that \<open>*\<close> consumes (the sibling branch for
  an option without a short name passes \<open>(max_opt, long)\<close>): \<open>generate_help\<close> raises
  \<open>TypeError\<close> and returns no line at all.
\<close>

theorem help_short_option_without_text:
  "generate_help [(''verbose'', Some ''v'', None)] None =
   Some (Inl (TypeError ''* wants int''))"
  by (simp add: generate_help_def wrap_text_def)

section \<open>Loading the option table and adding options\<close>

lemma add_option_conflict:
  "option_index self long_option \<noteq> None \<Longrightarrow>
   add_option self long_option short_option help_string =
     (Inl (DistutilsGetoptError
            (''option conflict: already an option '' @ [CHR 0x27] @ long_option @ [CHR 0x27])),
      self)"
  by (simp add: add_option_def)

text \<open>
  Claim C2. The claim expects a \<open>DistutilsGetoptError\<close> ("option conflict") also when the
  initial option table holds the same long name twice. \<open>build_index\<close> has no such test:
  the constructor returns normally, the table keeps both entries, and the index keeps the
  later one. Only \<open>add_option\<close> raises the error, here for the very name that the initial
  table was allowed to repeat.
\<close>

theorem initial_load_accepts_duplicate:
  "fst (FancyGetopt_init (Some [(''verbose'', Some ''v'', None), (''verbose'', Some ''x'', None)]))
     = Inr () \<and>
   option_table
     (snd (FancyGetopt_init (Some [(''verbose'', Some ''v'', None), (''verbose'', Some ''x'', None)])))
     = Some [(''verbose'', Some ''v'', None), (''verbose'', Some ''x'', None)] \<and>
   option_index
     (snd (FancyGetopt_init (Some [(''verbose'', Some ''v'', None), (''verbose'', Some ''x'', None)])))
     ''verbose''
     = Some (''verbose'', Some ''x'', None) \<and>
   fst (add_option
          (snd (FancyGetopt_init (Some [(''verbose'', Some ''v'', None), (''verbose'', Some ''x'', None)])))
          ''verbose'' (Some ''y'') None)
     = Inl (DistutilsGetoptError
           (''option conflict: already an option '' @ [CHR 0x27] @ ''verbose'' @ [CHR 0x27]))"
  by (simp add: engine_defs add_option_def)

section \<open>Reading the order record\<close>

text \<open>
  Claim C9. The claim expects \<open>get_option_order\<close> to fail with a usage error before any
  parse and to return the accumulated pairs after one. The method is declared without
  \<open>self\<close>, so every call on an instance raises \<open>TypeError\<close>: on a new parser, and on a
  parser whose \<open>getopt\<close> has just recorded \<open>("verbose", 1)\<close>.
\<close>

theorem get_option_order_raises_TypeError:
  "fst (get_option_order verbose_parser) =
     Inl (TypeError ''get_option_order() takes no arguments (1 given)'') \<and>
   option_order
     (fst (snd (snd (getopt (fixed_tokenizer [(''--verbose'', [])] []) [] verbose_parser
                        [[''--verbose'']] (Some 0) None))))
     = [(''verbose'', Num 1)] \<and>
   fst (get_option_order
          (fst (snd (snd (getopt (fixed_tokenizer [(''--verbose'', [])] []) [] verbose_parser
                            [[''--verbose'']] (Some 0) None))))) =
     Inl (TypeError ''get_option_order() takes no arguments (1 given)'')"
  by (simp add: get_option_order_def verbose_parser_def engine_defs parse_defs)

section \<open>Compiling twice\<close>

text \<open>
  A successful run of the loop of \<open>_grok_option_table\<close> acts on the instance as
  \<open>extend_compiled\<close> with fixed increments, and it acts in the same way on every instance
  with the same negative aliases whose \<open>takes_arg\<close> agrees with the first on its keys.
\<close>

lemma extend_compiled_twice:
  "extend_compiled ls2 ss2 dT2 dA2 dS2 (extend_compiled ls1 ss1 dT1 dA1 dS1 self) =
   extend_compiled (ls1 @ ls2) (ss1 @ ss2) (dT1 ++ dT2) (dA1 ++ dA2) (dS1 ++ dS2) self"
  by (simp add: extend_compiled_def)

lemma extend_compiled_fields [simp]:
  "option_table (extend_compiled ls ss dT dA dS self) = option_table self"
  "negative_alias (extend_compiled ls ss dT dA dS self) = negative_alias self"
  "option_index (extend_compiled ls ss dT dA dS self) = option_index self"
  "option_order (extend_compiled ls ss dT dA dS self) = option_order self"
  "long_opts (extend_compiled ls ss dT dA dS self) = long_opts self @ ls"
  "short_opts (extend_compiled ls ss dT dA dS self) = short_opts self @ ss"
  "takes_arg (extend_compiled ls ss dT dA dS self) = takes_arg self ++ dT"
  "attr_name (extend_compiled ls ss dT dA dS self) = attr_name self ++ dA"
  "short2long (extend_compiled ls ss dT dA dS self) = short2long self ++ dS"
  by (simp_all add: extend_compiled_def)

lemma map_le_add_both: "m \<subseteq>\<^sub>m m' \<Longrightarrow> m ++ d \<subseteq>\<^sub>m m' ++ d"
  by (auto simp: map_le_def map_add_def dom_def split: option.splits)

lemma grok_finish_sim:
  assumes "grok_finish long short self = (Inr (), self1)"
  shows "\<exists>ss dA dS. \<forall>s. grok_finish long short s = (Inr (), extend_compiled [] ss Map.empty dA dS s)"
proof (cases "py_true_str short")
  case False
  with assms have "\<forall>s. grok_finish long short s = (Inr (), extend_compiled [] [] Map.empty [long \<mapsto> longopt_xlate long] Map.empty s)"
    by (auto simp: grok_finish_def extend_compiled_def Let_def split: if_splits)
  then show ?thesis by blast
next
  case True
  then obtain c cs where sh: "short = Some (c # cs)"
    by (auto simp: py_true_str_def split: option.splits list.splits) (metis list.exhaust)
  with assms have "\<forall>s. grok_finish long short s = (Inr (), extend_compiled [] [c # cs] Map.empty [long \<mapsto> longopt_xlate long] [c \<mapsto> long] s)"
    by (auto simp: grok_finish_def extend_compiled_def Let_def py_true_str_def split: if_splits)
  then show ?thesis by blast
qed


lemma grok_option_sim:
  assumes ok: "grok_option option self = (Inr (), self1)"
  shows "\<exists>ls ss dT dA dS. \<forall>s::FancyGetopt. negative_alias s = negative_alias self \<longrightarrow>
           takes_arg self \<subseteq>\<^sub>m takes_arg s \<longrightarrow>
           grok_option option s = (Inr (), extend_compiled ls ss dT dA dS s)"
proof -
  obtain long short hlp where opt: "option = (long, short, hlp)"
    by (cases option) auto
  from ok opt have len: "\<not> length long < 2"
    and sh: "(case short of None \<Rightarrow> True | Some s \<Rightarrow> length s = 1)"
    by (auto simp: grok_option_def split: if_splits)
  show ?thesis
  proof (cases "last long = CHR ''=''")
    case True
    define short1 where "short1 = (if py_true_str short then map_option (\<lambda>s. s @ '':'') short else short)"
    from ok opt len sh True
    have "\<exists>s2. grok_finish (butlast long) short1 s2 = (Inr (), self1)"
      by (auto simp: grok_option_def Let_def short1_def)
    then obtain ss dA dS where
      fin: "\<forall>s. grok_finish (butlast long) short1 s = (Inr (), extend_compiled [] ss Map.empty dA dS s)"
      using grok_finish_sim by blast
    have "\<forall>s. grok_option option s =
            (Inr (), extend_compiled [long] ss [butlast long \<mapsto> 1] dA dS s)"
      using opt len sh True fin
      by (simp add: grok_option_def Let_def short1_def extend_compiled_def)
    then show ?thesis by blast
  next
    case False
    show ?thesis
    proof (cases "negative_alias self long")
      case None
      from ok opt len sh False None
      have "\<exists>s2. grok_finish long short s2 = (Inr (), self1)"
        by (auto simp: grok_option_def Let_def)
      then obtain ss dA dS where
        fin: "\<forall>s. grok_finish long short s = (Inr (), extend_compiled [] ss Map.empty dA dS s)"
        using grok_finish_sim by blast
      have "\<forall>s::FancyGetopt. negative_alias s = negative_alias self \<longrightarrow> grok_option option s =
              (Inr (), extend_compiled [long] ss [long \<mapsto> 0] dA dS s)"
        using opt len sh False None fin
        by (simp add: grok_option_def Let_def extend_compiled_def)
      then show ?thesis by blast
    next
      case (Some alias_to)
      from ok opt len sh False Some
      have ta: "takes_arg self alias_to = Some 0"
        by (auto simp: grok_option_def Let_def split: option.splits if_splits)
      from ok opt len sh False Some ta
      have "\<exists>s2. grok_finish long short s2 = (Inr (), self1)"
        by (auto simp: grok_option_def Let_def)
      then obtain ss dA dS where
        fin: "\<forall>s. grok_finish long short s = (Inr (), extend_compiled [] ss Map.empty dA dS s)"
        using grok_finish_sim by blast
      have "\<forall>s::FancyGetopt. negative_alias s = negative_alias self \<longrightarrow> takes_arg self \<subseteq>\<^sub>m takes_arg s \<longrightarrow>
              grok_option option s = (Inr (), extend_compiled [long] ss [long \<mapsto> 0] dA dS s)"
      proof (intro allI impI)
        fix s :: FancyGetopt assume na: "negative_alias s = negative_alias self"
          and le: "takes_arg self \<subseteq>\<^sub>m takes_arg s"
        from le ta have "takes_arg s alias_to = Some 0"
          by (metis domI map_le_def)
        then show "grok_option option s = (Inr (), extend_compiled [long] ss [long \<mapsto> 0] dA dS s)"
          using opt len sh False Some fin na
          by (simp add: grok_option_def Let_def extend_compiled_def)
      qed
      then show ?thesis by blast
    qed
  qed
qed

lemma grok_options_sim:
  "grok_options table self = (Inr (), self1) \<Longrightarrow>
   \<exists>ls ss dT dA dS. \<forall>s::FancyGetopt. negative_alias s = negative_alias self \<longrightarrow>
           takes_arg self \<subseteq>\<^sub>m takes_arg s \<longrightarrow>
           grok_options table s = (Inr (), extend_compiled ls ss dT dA dS s)"
proof (induction table arbitrary: self)
  case Nil
  have "\<forall>s. grok_options [] s = (Inr (), extend_compiled [] [] Map.empty Map.empty Map.empty s)"
    by (simp add: extend_compiled_def)
  then show ?case by blast
next
  case (Cons option rest)
  from Cons.prems obtain mid where
    step: "grok_option option self = (Inr (), mid)" and
    more: "grok_options rest mid = (Inr (), self1)"
    by (auto split: prod.splits sum.splits)
  from grok_option_sim [OF step] obtain ls1 ss1 dT1 dA1 dS1 where
    s1: "\<forall>s::FancyGetopt. negative_alias s = negative_alias self \<longrightarrow> takes_arg self \<subseteq>\<^sub>m takes_arg s \<longrightarrow>
           grok_option option s = (Inr (), extend_compiled ls1 ss1 dT1 dA1 dS1 s)"
    by blast
  from s1 step have mid: "mid = extend_compiled ls1 ss1 dT1 dA1 dS1 self"
    by (simp add: map_le_refl)
  from Cons.IH [OF more] obtain ls2 ss2 dT2 dA2 dS2 where
    s2: "\<forall>s::FancyGetopt. negative_alias s = negative_alias mid \<longrightarrow> takes_arg mid \<subseteq>\<^sub>m takes_arg s \<longrightarrow>
           grok_options rest s = (Inr (), extend_compiled ls2 ss2 dT2 dA2 dS2 s)"
    by blast
  have "\<forall>s::FancyGetopt. negative_alias s = negative_alias self \<longrightarrow> takes_arg self \<subseteq>\<^sub>m takes_arg s \<longrightarrow>
          grok_options (option # rest) s =
          (Inr (), extend_compiled (ls1 @ ls2) (ss1 @ ss2) (dT1 ++ dT2) (dA1 ++ dA2) (dS1 ++ dS2) s)"
  proof (intro allI impI)
    fix s :: FancyGetopt assume na: "negative_alias s = negative_alias self"
      and le: "takes_arg self \<subseteq>\<^sub>m takes_arg s"
    from s1 na le have a: "grok_option option s = (Inr (), extend_compiled ls1 ss1 dT1 dA1 dS1 s)"
      by blast
    have "grok_options rest (extend_compiled ls1 ss1 dT1 dA1 dS1 s) =
            (Inr (), extend_compiled ls2 ss2 dT2 dA2 dS2 (extend_compiled ls1 ss1 dT1 dA1 dS1 s))"
      using s2 na le by (simp add: mid map_le_add_both)
    with a show "grok_options (option # rest) s =
          (Inr (), extend_compiled (ls1 @ ls2) (ss1 @ ss2) (dT1 ++ dT2) (dA1 ++ dA2) (dS1 ++ dS2) s)"
      by (simp add: extend_compiled_twice)
  qed
  then show ?case by blast
qed

lemma map_add_twice: "(m ++ d) ++ d = m ++ d"
  by (rule ext) (simp add: map_add_def split: option.splits)

lemma map_add_same: "d ++ d = d"
  by (rule ext) (simp add: map_add_def split: option.splits)


text \<open>
  The extent of the repetition, for every table: on a parser whose compiled structures are
  as \<open>__init__\<close> leaves them, a second successful run rebuilds \<open>short2long\<close>,
  \<open>attr_name\<close> and \<open>takes_arg\<close> to the same contents, and appends to \<open>long_opts\<close> and
  \<open>short_opts\<close> the entries that the first run appended.
\<close>

lemma second_compile_appends_again:
  assumes fresh: "takes_arg self = Map.empty" "long_opts self = []" "short_opts self = []"
    and ok: "grok_option_table self = (Inr (), self1)"
  shows "\<exists>self2. grok_option_table self1 = (Inr (), self2) \<and>
           short2long self2 = short2long self1 \<and> attr_name self2 = attr_name self1 \<and>
           takes_arg self2 = takes_arg self1 \<and>
           long_opts self2 = long_opts self1 @ long_opts self1 \<and>
           short_opts self2 = short_opts self1 @ short_opts self1"
proof -
  from ok obtain table where t: "option_table self = Some table"
    and run: "grok_options table self = (Inr (), self1)"
    by (auto simp: grok_option_table_def split: option.splits)
  from grok_options_sim [OF run] obtain ls ss dT dA dS where
    sim: "\<forall>s::FancyGetopt. negative_alias s = negative_alias self \<longrightarrow>
           takes_arg self \<subseteq>\<^sub>m takes_arg s \<longrightarrow>
           grok_options table s = (Inr (), extend_compiled ls ss dT dA dS s)"
    by blast
  from sim run have s1: "self1 = extend_compiled ls ss dT dA dS self"
    by (simp add: map_le_refl)
  have le: "takes_arg self \<subseteq>\<^sub>m takes_arg self1"
    by (simp add: fresh)
  from sim le have "grok_options table self1 = (Inr (), extend_compiled ls ss dT dA dS self1)"
    by (simp add: s1)
  then have "grok_option_table self1 = (Inr (), extend_compiled ls ss dT dA dS self1)"
    by (simp add: grok_option_table_def s1 t)
  moreover have "short2long (extend_compiled ls ss dT dA dS self1) = short2long self1"
    "attr_name (extend_compiled ls ss dT dA dS self1) = attr_name self1"
    "takes_arg (extend_compiled ls ss dT dA dS self1) = takes_arg self1"
    "long_opts (extend_compiled ls ss dT dA dS self1) = long_opts self1 @ long_opts self1"
    "short_opts (extend_compiled ls ss dT dA dS self1) = short_opts self1 @ short_opts self1"
    by (simp_all add: s1 map_add_twice map_add_same fresh)
  ultimately show ?thesis by blast
qed

text \<open>
  Claim C1. The claim expects a second run of \<open>_grok_option_table\<close> on the same instance
  to leave the compiled structures as the first run built them. The three dictionaries
  are rebuilt to the same contents, but \<open>long_opts\<close> and \<open>short_opts\<close> are appended to
  and reset nowhere, although \<open>getopt\<close> compiles on every call. On the table
  \<open>[("verbose", "v", None)]\<close> both runs succeed; the first builds \<open>["verbose"]\<close> and
  \<open>["v"]\<close>, the second leaves \<open>["verbose", "verbose"]\<close> and \<open>["v", "v"]\<close>, so that a
  second parse hands the short-option string \<open>"v v"\<close> and the doubled long-option list to
  the tokenizer.
\<close>

theorem second_compile_doubles_lists:
  "fst (grok_option_table verbose_parser) = Inr () \<and>
   fst (grok_option_table (snd (grok_option_table verbose_parser))) = Inr () \<and>
   long_opts (snd (grok_option_table verbose_parser)) = [''verbose''] \<and>
   long_opts (snd (grok_option_table (snd (grok_option_table verbose_parser)))) =
     [''verbose'', ''verbose''] \<and>
   short_opts (snd (grok_option_table verbose_parser)) = [''v''] \<and>
   short_opts (snd (grok_option_table (snd (grok_option_table verbose_parser)))) =
     [''v'', ''v''] \<and>
   string_join (short_opts (snd (grok_option_table verbose_parser))) = ''v'' \<and>
   string_join (short_opts (snd (grok_option_table (snd (grok_option_table verbose_parser))))) =
     ''v v'' \<and>
   long_opts (snd (grok_option_table (snd (grok_option_table verbose_parser)))) \<noteq>
     long_opts (snd (grok_option_table verbose_parser)) \<and>
   short_opts (snd (grok_option_table (snd (grok_option_table verbose_parser)))) \<noteq>
     short_opts (snd (grok_option_table verbose_parser))"
  by (simp add: verbose_parser_def engine_defs)

section \<open>Negative aliases\<close>









text \<open>
  Claim C4. The claim expects a \<open>DistutilsGetoptError\<close> ("aliased option ... takes a value")
  whenever a negative alias points at a value-taking option, wherever that option stands
  in the table. The test reads \<open>self.takes_arg[alias_to]\<close>, a dictionary that holds only
  the stripped names of the entries compiled so far, and raises \<open>KeyError\<close> when the target
  is not among them. Both inputs below pass \<open>set_negative_aliases\<close>. In the first the
  alias names the value-taking entry \<open>output=\<close> as the table and the index have it, and
  that entry even precedes \<open>quiet\<close>; in the second the alias names \<open>output\<close>, whose
  value-taking entry follows \<open>quiet\<close>.
\<close>

theorem alias_check_raises_KeyError:
  "fst (set_negative_aliases
          (snd (FancyGetopt_init
                  (Some [(''output='', Some ''o'', None), (''quiet'', Some ''q'', None)])))
          [(''quiet'', ''output='')]) = Inr () \<and>
   fst (grok_option_table
          (snd (set_negative_aliases
                  (snd (FancyGetopt_init
                          (Some [(''output='', Some ''o'', None), (''quiet'', Some ''q'', None)])))
                  [(''quiet'', ''output='')]))) = Inl (KeyError ''output='') \<and>
   fst (set_negative_aliases
          (snd (FancyGetopt_init
                  (Some [(''quiet'', Some ''q'', None), (''output'', None, None),
                         (''output='', Some ''o'', None)])))
          [(''quiet'', ''output'')]) = Inr () \<and>
   fst (grok_option_table
          (snd (set_negative_aliases
                  (snd (FancyGetopt_init
                          (Some [(''quiet'', Some ''q'', None), (''output'', None, None),
                                 (''output='', Some ''o'', None)])))
                  [(''quiet'', ''output'')]))) = Inl (KeyError ''output'')"
  by (simp add: engine_defs)

section \<open>Parsing: the value of a value-less option, and the returned list\<close>

lemma bind_option_bad_value:
  "takes_arg self long = Some 0 \<Longrightarrow> long \<noteq> [] \<Longrightarrow> val \<noteq> [] \<Longrightarrow>
   bind_option (''--'' @ long, val) object self = (Inl (NameError ''value''), object, self)"
  by (simp add: bind_option_def)

text \<open>
  Claim C8. The claim expects \<open>DistutilsInternalError\<close> when a value-less option arrives
  with a non-empty value. The source means to raise it, but formats its message from the
  unbound name \<open>value\<close>, so the call ends in \<open>NameError\<close>. In the table below the short
  name \<open>x\<close> is given to \<open>aa=\<close> and to \<open>bb\<close>: the short-option string is \<open>"x: x"\<close>, for which
  a getopt-style tokenizer reads \<open>-x val\<close> as the pair \<open>("-x", "val")\<close>, while \<open>short2long\<close>
  maps \<open>x\<close> to the value-less \<open>bb\<close>.
\<close>

theorem bad_option_value_raises_NameError:
  "string_join
     (short_opts
        (snd (grok_option_table
                (snd (FancyGetopt_init
                        (Some [(''aa='', Some ''x'', None), (''bb'', Some ''x'', None)]))))))
     = ''x: x'' \<and>
   fst (fancy_getopt (fixed_tokenizer [(''-x'', ''val'')] []) []
          (Some [(''aa='', Some ''x'', None), (''bb'', Some ''x'', None)]) [] None
          [[''-x'', ''val'']] (Some 0))
     = Inl (NameError ''value'')"
  by (simp add: engine_defs parse_defs)

lemma getopt_passes_residual:
  assumes "getopt getopt_getopt sys_argv self h (Some a) object = (Inr result, object1, self1, h1)"
  shows "\<exists>opts r. getopt_getopt h a (string_join (short_opts (snd (grok_option_table self))))
                     (long_opts (snd (grok_option_table self))) = (Inr (opts, r), h1) \<and>
                   (result = Args r \<or> result = ArgsObject r object1)"
  using assms
  by (auto simp: getopt_def Let_def split: prod.splits sum.splits if_splits)

text \<open>
  Claim C7. The claim expects the returned list of remaining arguments to be a fresh copy
  of the caller's list, as the docstring of \<open>getopt\<close> says (``a modified copy of the
  passed-in 'args' list''). \<open>getopt\<close> makes no copy of its own: it returns the list object
  that the tokenizer returns. When the caller's list starts with no option the tokenizer
  hands back the object it was given, and \<open>getopt\<close> returns reference 0, the caller's own
  list, with the heap unchanged.
\<close>

theorem residual_is_callers_list:
  "getopt returns_given_list [] verbose_parser [[''file.txt'']] (Some 0) (Some Map.empty) =
     (Inr (Args 0), Map.empty, snd (grok_option_table verbose_parser), [[''file.txt'']])"
  by (simp add: verbose_parser_def engine_defs parse_defs)

end
